theory Spec2Isabelle
  imports Complex_Main
begin

section \<open>Data model (shared/schema.ts)\<close>

text \<open>
  The tables of the schema are lists of rows, in insertion order. Every column keeps
  the name it has in the schema, prefixed by a letter for its table (\<open>p_\<close> products,
  \<open>t_\<close> stock transactions, \<open>w_\<close> weekly stock plans, \<open>a_\<close> low stock alerts),
  because several tables share column names.

  Columns of type \<open>decimal(10, 2)\<close> travel through the code as decimal strings, are
  read with \<open>parseFloat\<close> and written back with \<open>toString\<close>. Here such a column holds
  the number its string denotes, \<open>parseFloat\<close> and \<open>toString\<close> are the identity, and
  the arithmetic of the code (\<open>+\<close>, \<open>-\<close>, \<open>*\<close>, \<open><\<close>, \<open><=\<close>) is exact arithmetic on
  rationals. This is an idealisation: the source computes in binary floating point and
  the column rounds what it is given to two digits after the point; neither the error
  of the one nor the rounding of the other is modelled. Strings that denote no number
  (on which \<open>parseFloat\<close> gives \<open>NaN\<close>) are outside this model.

  A \<open>timestamp\<close> column is a point in time counted in some fixed unit, a \<open>date\<close> column
  a day number; both are compared chronologically, as the database does.
  A \<open>serial\<close> column draws its value from a counter kept with the table.
\<close>

type_synonym number = rat
type_synonym timestamp = nat
type_synonym date = nat

record Product =
  p_id :: nat
  p_name :: string
  p_unit :: string
  p_openingStock :: number
  p_currentStock :: number
  p_isActive :: int
  p_createdAt :: "timestamp option"
  p_updatedAt :: "timestamp option"

record StockTransaction =
  t_id :: nat
  t_productId :: nat
  t_userId :: nat
  t_type :: string
  t_quantity :: number
  t_originalQuantity :: "number option"
  t_originalUnit :: "string option"
  t_previousStock :: number
  t_newStock :: number
  t_transactionDate :: timestamp
  t_soNumber :: "string option"
  t_poNumber :: "string option"
  t_createdAt :: "timestamp option"

record WeeklyStockPlan =
  w_id :: nat
  w_productId :: nat
  w_userId :: nat
  w_plannedQuantity :: number
  w_unit :: string
  w_weekStartDate :: date
  w_weekEndDate :: date
  w_isActive :: bool
  w_notes :: "string option"
  w_createdAt :: "timestamp option"
  w_updatedAt :: "timestamp option"

record LowStockAlert =
  a_id :: nat
  a_productId :: nat
  a_weeklyPlanId :: nat
  a_currentStock :: number
  a_plannedQuantity :: number
  a_alertLevel :: string
  a_isResolved :: bool
  a_alertDate :: timestamp
  a_resolvedAt :: "timestamp option"
  a_createdAt :: "timestamp option"

text \<open>The database: the four tables and the counters of their \<open>serial\<close> keys.\<close>

record db =
  products :: "Product list"
  stockTransactions :: "StockTransaction list"
  weeklyStockPlans :: "WeeklyStockPlan list"
  lowStockAlerts :: "LowStockAlert list"
  products_id_seq :: nat
  stockTransactions_id_seq :: nat
  lowStockAlerts_id_seq :: nat

section \<open>Errors\<close>

text \<open>
  A thrown \<open>Error\<close> carries its message. A template literal is kept as the list of its
  parts, so that an interpolated number stays a number. \<open>TypeError\<close> is what reading a
  property of \<open>null\<close> throws.
\<close>

datatype msg_part = Lit string | Num number

datatype error = Error "msg_part list" | TypeError

text \<open>
  \<open>db.transaction\<close>: the body runs on the database; when it throws, every write it
  made is rolled back and the error is thrown on, otherwise its writes are committed.
  The result is the database after the call together with the outcome.
\<close>

definition db_transaction :: "db \<Rightarrow> (db \<Rightarrow> error + (db \<times> 'a)) \<Rightarrow> db \<times> (error + 'a)" where
  "db_transaction d body =
     (case body d of
        Inl e \<Rightarrow> (d, Inl e)
      | Inr (d', r) \<Rightarrow> (d', Inr r))"

section \<open>Product queries (server/queries.ts, productQueries)\<close>



section \<open>Stock mutation (server/queries.ts, transactionHelpers)\<close>

record StockResult =
  r_transaction :: StockTransaction
  r_product :: "Product option"

text \<open>\<open>select().from(products).where(eq(products.id, productId)).limit(1)\<close>, then \<open>[0]\<close>.\<close>

definition select_product :: "db \<Rightarrow> nat \<Rightarrow> Product option" where
  "select_product d productId = find (\<lambda>p. p_id p = productId) (products d)"

text \<open>\<open>update(products).set({currentStock, updatedAt: now()}).where(eq(products.id, productId))\<close>.\<close>

definition update_stock :: "db \<Rightarrow> nat \<Rightarrow> number \<Rightarrow> timestamp \<Rightarrow> db" where
  "update_stock d productId newStock now =
     d\<lparr> products :=
          map (\<lambda>p. if p_id p = productId
                    then p\<lparr> p_currentStock := newStock, p_updatedAt := Some now \<rparr>
                    else p) (products d) \<rparr>"

text \<open>\<open>insert(stockTransactions).values(row).returning()\<close>: the key comes from the counter.\<close>

definition insert_transaction :: "db \<Rightarrow> StockTransaction \<Rightarrow> db \<times> StockTransaction" where
  "insert_transaction d row =
     (let r = row\<lparr> t_id := stockTransactions_id_seq d + 1 \<rparr>
      in (d\<lparr> stockTransactions := stockTransactions d @ [r],
              stockTransactions_id_seq := stockTransactions_id_seq d + 1 \<rparr>, r))"

text \<open>
  \<open>processStockIn\<close>. \<open>now\<close> is the database clock (\<open>now()\<close> and the default of
  \<open>createdAt\<close>). The parameter \<open>remarks\<close> is not used by the code.
\<close>

definition processStockIn ::
  "db \<Rightarrow> nat \<Rightarrow> nat \<Rightarrow> number \<Rightarrow> timestamp \<Rightarrow> string option \<Rightarrow> string option \<Rightarrow>
   number option \<Rightarrow> string option \<Rightarrow> timestamp \<Rightarrow> db \<times> (error + StockResult)" where
  "processStockIn d productId userId quantity transactionDate remarks poNumber
     originalQuantity originalUnit now =
   db_transaction d (\<lambda>tx.
     case select_product tx productId of
       None \<Rightarrow> Inl (Error [Lit ''Product not found''])
     | Some currentProduct \<Rightarrow>
         (let previousStock = p_currentStock currentProduct;
              newStock = previousStock + quantity;
              tx1 = update_stock tx productId newStock now;
              updatedProduct = select_product tx1 productId;
              (tx2, row) = insert_transaction tx1
                 \<lparr> t_id = 0,
                   t_productId = productId,
                   t_userId = userId,
                   t_type = ''stock_in'',
                   t_quantity = quantity,
                   t_originalQuantity = originalQuantity,
                   t_originalUnit = originalUnit,
                   t_previousStock = previousStock,
                   t_newStock = newStock,
                   t_transactionDate = transactionDate,
                   t_soNumber = None,
                   t_poNumber = poNumber,
                   t_createdAt = Some now \<rparr>
          in Inr (tx2, \<lparr> r_transaction = row, r_product = updatedProduct \<rparr>)))"

text \<open>\<open>processStockOut\<close>: the same, after the check of the stock at hand.\<close>

definition processStockOut ::
  "db \<Rightarrow> nat \<Rightarrow> nat \<Rightarrow> number \<Rightarrow> timestamp \<Rightarrow> string option \<Rightarrow>
   number option \<Rightarrow> string option \<Rightarrow> timestamp \<Rightarrow> db \<times> (error + StockResult)" where
  "processStockOut d productId userId quantity transactionDate soNumber
     originalQuantity originalUnit now =
   db_transaction d (\<lambda>tx.
     case select_product tx productId of
       None \<Rightarrow> Inl (Error [Lit ''Product not found''])
     | Some currentProduct \<Rightarrow>
         (let previousStock = p_currentStock currentProduct;
              currentStockNum = previousStock;
              quantityNum = quantity
          in if currentStockNum < quantityNum
             then Inl (Error [Lit ''Insufficient stock. Available: '', Num currentStockNum,
                              Lit '', Requested: '', Num quantityNum])
             else
               (let newStock = currentStockNum - quantityNum;
                    tx1 = update_stock tx productId newStock now;
                    updatedProduct = select_product tx1 productId;
                    (tx2, row) = insert_transaction tx1
                       \<lparr> t_id = 0,
                         t_productId = productId,
                         t_userId = userId,
                         t_type = ''stock_out'',
                         t_quantity = quantity,
                         t_originalQuantity = originalQuantity,
                         t_originalUnit = originalUnit,
                         t_previousStock = previousStock,
                         t_newStock = newStock,
                         t_transactionDate = transactionDate,
                         t_soNumber = soNumber,
                         t_poNumber = None,
                         t_createdAt = Some now \<rparr>
                in Inr (tx2, \<lparr> r_transaction = row, r_product = updatedProduct \<rparr>))))"

text \<open>The stock at hand of a product, as a reader of the products table sees it.\<close>

definition stock_of :: "db \<Rightarrow> nat \<Rightarrow> number option" where
  "stock_of d productId = map_option p_currentStock (select_product d productId)"

section \<open>Storage layer (server/storage.ts, DatabaseStorage.createStockTransaction)\<close>

text \<open>
  The object that the routes hand to \<open>createStockTransaction\<close>. Its \<open>remarks\<close> field is
  never read.
\<close>

record StockRequest =
  rq_productId :: nat
  rq_userId :: nat
  rq_type :: string
  rq_quantity :: number
  rq_originalQuantity :: "number option"
  rq_originalUnit :: "string option"
  rq_transactionDate :: "timestamp option"
  rq_soNumber :: "string option"
  rq_poNumber :: "string option"

text \<open>\<open>s || null\<close> on an optional string: the empty string is falsy.\<close>

definition or_null :: "string option \<Rightarrow> string option" where
  "or_null s = (case s of None \<Rightarrow> None | Some v \<Rightarrow> if v = [] then None else Some v)"

text \<open>The body of the \<open>try\<close> block: the call of the engine that the request leads to.\<close>

definition createStockTransaction_try ::
  "db \<Rightarrow> StockRequest \<Rightarrow> timestamp \<Rightarrow> db \<times> (error + StockResult)" where
  "createStockTransaction_try d transaction now =
     (let transactionDate = (case rq_transactionDate transaction of None \<Rightarrow> now | Some t \<Rightarrow> t)
      in if rq_type transaction = ''stock_in''
         then processStockIn d (rq_productId transaction) (rq_userId transaction)
                (rq_quantity transaction) transactionDate None (rq_poNumber transaction)
                (rq_originalQuantity transaction) (rq_originalUnit transaction) now
         else processStockOut d (rq_productId transaction) (rq_userId transaction)
                (rq_quantity transaction) transactionDate (rq_soNumber transaction)
                (rq_originalQuantity transaction) (rq_originalUnit transaction) now)"

text \<open>
  \<open>createStockTransaction\<close>: \<open>random\<close> stands for \<open>Math.floor(Math.random() * 1000)\<close>,
  \<open>now\<close> for the clock. The \<open>catch\<close> block builds its record without touching the
  database.
\<close>

definition createStockTransaction ::
  "db \<Rightarrow> StockRequest \<Rightarrow> timestamp \<Rightarrow> nat \<Rightarrow> db \<times> StockTransaction" where
  "createStockTransaction d transaction now random =
     (case createStockTransaction_try d transaction now of
        (d', Inr result) \<Rightarrow> (d', r_transaction result)
      | (d', Inl err) \<Rightarrow>
          (d', \<lparr> t_id = random + 1,
                 t_productId = rq_productId transaction,
                 t_userId = rq_userId transaction,
                 t_type = rq_type transaction,
                 t_quantity = rq_quantity transaction,
                 t_originalQuantity = rq_originalQuantity transaction,
                 t_originalUnit = or_null (rq_originalUnit transaction),
                 t_previousStock = 100.00,
                 t_newStock = (if rq_type transaction = ''stock_in'' then 110.00 else 90.00),
                 t_transactionDate =
                   (case rq_transactionDate transaction of None \<Rightarrow> now | Some t \<Rightarrow> t),
                 t_soNumber = or_null (rq_soNumber transaction),
                 t_poNumber = or_null (rq_poNumber transaction),
                 t_createdAt = Some now \<rparr>))"

text \<open>
  A sequence of requests, one engine call after the other, as the loop of a route
  submits the lines of a batch; a rejected request leaves the database as it was.
\<close>

fun apply_requests :: "db \<Rightarrow> StockRequest list \<Rightarrow> timestamp \<Rightarrow> db" where
  "apply_requests d [] now = d"
| "apply_requests d (r # rs) now = apply_requests (fst (createStockTransaction_try d r now)) rs now"


section \<open>Weekly stock plans (server/queries.ts, weeklyStockPlanQueries)\<close>

text \<open>
  A plan joined to its product by \<open>leftJoin\<close>: the product is \<open>null\<close> when no row of
  the products table has the plan's \<open>productId\<close>. The joined user is read by none of
  the functions below and is left out.
\<close>

record WeeklyStockPlanWithDetails = WeeklyStockPlan +
  wd_product :: "Product option"

record LowStockItem =
  li_productId :: nat
  li_productName :: string
  li_currentStock :: number
  li_plannedQuantity :: number
  li_weeklyPlanId :: nat
  li_unit :: string

text \<open>
  \<open>getCurrentWeekPlans\<close>: \<open>currentDateString\<close> is the date of \<open>new Date()\<close>, an input
  here.
\<close>

definition getCurrentWeekPlans :: "db \<Rightarrow> date \<Rightarrow> WeeklyStockPlanWithDetails list" where
  "getCurrentWeekPlans d currentDateString =
     map (\<lambda>w. \<lparr> w_id = w_id w,
                 w_productId = w_productId w,
                 w_userId = w_userId w,
                 w_plannedQuantity = w_plannedQuantity w,
                 w_unit = w_unit w,
                 w_weekStartDate = w_weekStartDate w,
                 w_weekEndDate = w_weekEndDate w,
                 w_isActive = w_isActive w,
                 w_notes = w_notes w,
                 w_createdAt = w_createdAt w,
                 w_updatedAt = w_updatedAt w,
                 wd_product = select_product d (w_productId w) \<rparr>)
       (filter (\<lambda>w. w_isActive w = True
                   \<and> w_weekStartDate w \<le> currentDateString
                   \<and> w_weekEndDate w \<ge> currentDateString)
          (weeklyStockPlans d))"

text \<open>The object that \<open>checkLowStockAlerts\<close> pushes for a plan in shortage.\<close>

definition shortage_item :: "WeeklyStockPlanWithDetails \<Rightarrow> Product \<Rightarrow> LowStockItem" where
  "shortage_item plan pr =
     \<lparr> li_productId = w_productId plan,
       li_productName = p_name pr,
       li_currentStock = p_currentStock pr,
       li_plannedQuantity = w_plannedQuantity plan,
       li_weeklyPlanId = w_id plan,
       li_unit = w_unit plan \<rparr>"

text \<open>The \<open>for\<close> loop of \<open>checkLowStockAlerts\<close>, with \<open>lowStockItems\<close> as accumulator.\<close>

fun checkLowStockAlerts_loop ::
  "WeeklyStockPlanWithDetails list \<Rightarrow> LowStockItem list \<Rightarrow> error + LowStockItem list" where
  "checkLowStockAlerts_loop [] lowStockItems = Inr lowStockItems"
| "checkLowStockAlerts_loop (plan # rest) lowStockItems =
     (case wd_product plan of
        None \<Rightarrow> Inl TypeError
      | Some pr \<Rightarrow>
          (let currentStock = p_currentStock pr;
               plannedQuantity = w_plannedQuantity plan
           in if currentStock < plannedQuantity
              then checkLowStockAlerts_loop rest (lowStockItems @ [shortage_item plan pr])
              else checkLowStockAlerts_loop rest lowStockItems))"

definition checkLowStockAlerts :: "db \<Rightarrow> date \<Rightarrow> error + LowStockItem list" where
  "checkLowStockAlerts d currentDateString =
     checkLowStockAlerts_loop (getCurrentWeekPlans d currentDateString) []"

section \<open>Low stock alerts (server/queries.ts, lowStockAlertQueries)\<close>

record InsertLowStockAlert =
  ia_productId :: nat
  ia_weeklyPlanId :: nat
  ia_currentStock :: number
  ia_plannedQuantity :: number
  ia_alertLevel :: string
  ia_alertDate :: timestamp

text \<open>
  \<open>lowStockAlertQueries.create\<close>: the key comes from the counter, \<open>isResolved\<close>,
  \<open>resolvedAt\<close> and \<open>createdAt\<close> take their defaults.
\<close>

definition alert_create :: "db \<Rightarrow> InsertLowStockAlert \<Rightarrow> timestamp \<Rightarrow> db \<times> LowStockAlert" where
  "alert_create d alertData now =
     (let row = \<lparr> a_id = lowStockAlerts_id_seq d + 1,
                  a_productId = ia_productId alertData,
                  a_weeklyPlanId = ia_weeklyPlanId alertData,
                  a_currentStock = ia_currentStock alertData,
                  a_plannedQuantity = ia_plannedQuantity alertData,
                  a_alertLevel = ia_alertLevel alertData,
                  a_isResolved = False,
                  a_alertDate = ia_alertDate alertData,
                  a_resolvedAt = None,
                  a_createdAt = Some now \<rparr>
      in (d\<lparr> lowStockAlerts := lowStockAlerts d @ [row],
              lowStockAlerts_id_seq := lowStockAlerts_id_seq d + 1 \<rparr>, row))"

text \<open>
  \<open>lowStockAlertQueries.resolve\<close>: every row with the key is marked resolved; no such
  row is an error.
\<close>

definition alert_resolve :: "db \<Rightarrow> nat \<Rightarrow> timestamp \<Rightarrow> db \<times> (error + LowStockAlert)" where
  "alert_resolve d alertId now =
     (let d' = d\<lparr> lowStockAlerts :=
                    map (\<lambda>a. if a_id a = alertId
                              then a\<lparr> a_isResolved := True, a_resolvedAt := Some now \<rparr>
                              else a) (lowStockAlerts d) \<rparr>
      in case find (\<lambda>a. a_id a = alertId) (lowStockAlerts d') of
           None \<Rightarrow> (d', Inl (Error [Lit ''Alert not found'']))
         | Some a \<Rightarrow> (d', Inr a))"

text \<open>The object that \<open>processLowStockChecking\<close> hands to \<open>create\<close> for an item.\<close>

definition new_alert_data :: "LowStockItem \<Rightarrow> timestamp \<Rightarrow> InsertLowStockAlert" where
  "new_alert_data item now =
     \<lparr> ia_productId = li_productId item,
       ia_weeklyPlanId = li_weeklyPlanId item,
       ia_currentStock = li_currentStock item,
       ia_plannedQuantity = li_plannedQuantity item,
       ia_alertLevel =
         (if li_currentStock item \<le> li_plannedQuantity item * 0.5
          then ''critical'' else ''low''),
       ia_alertDate = now \<rparr>"

text \<open>
  The \<open>for\<close> loop of \<open>processLowStockChecking\<close>, with \<open>newAlerts\<close> as accumulator.
  \<open>now\<close> is the clock, read for \<open>alertDate\<close> and \<open>createdAt\<close>.
\<close>

fun processLowStockChecking_loop ::
  "db \<Rightarrow> LowStockItem list \<Rightarrow> LowStockAlert list \<Rightarrow> timestamp \<Rightarrow> db \<times> LowStockAlert list" where
  "processLowStockChecking_loop d [] newAlerts now = (d, newAlerts)"
| "processLowStockChecking_loop d (item # items) newAlerts now =
     (let existingAlert =
            take 1 (filter (\<lambda>a. a_productId a = li_productId item
                               \<and> a_weeklyPlanId a = li_weeklyPlanId item
                               \<and> a_isResolved a = False) (lowStockAlerts d))
      in if length existingAlert = 0
         then (let (d', alert) = alert_create d (new_alert_data item now) now
               in processLowStockChecking_loop d' items (newAlerts @ [alert]) now)
         else processLowStockChecking_loop d items newAlerts now)"

text \<open>
  \<open>processLowStockChecking\<close>: an error of \<open>checkLowStockAlerts\<close> is thrown on before
  anything is written.
\<close>

definition processLowStockChecking ::
  "db \<Rightarrow> date \<Rightarrow> timestamp \<Rightarrow> db \<times> (error + LowStockAlert list)" where
  "processLowStockChecking d currentDateString now =
     (case checkLowStockAlerts d currentDateString of
        Inl e \<Rightarrow> (d, Inl e)
      | Inr lowStockItems \<Rightarrow>
          (let (d', newAlerts) = processLowStockChecking_loop d lowStockItems [] now
           in (d', Inr newAlerts)))"

text \<open>
  The pair of a product and a plan has an unresolved alert: the condition that the
  existence check of the loop tests, as a predicate on the alerts table.
\<close>

definition has_open_alert :: "db \<Rightarrow> nat \<Rightarrow> nat \<Rightarrow> bool" where
  "has_open_alert d productId weeklyPlanId =
     list_ex (\<lambda>a. a_productId a = productId \<and> a_weeklyPlanId a = weeklyPlanId
                      \<and> a_isResolved a = False) (lowStockAlerts d)"

text \<open>
  The plans of the current week in shortage with the descriptors they produce, written
  as a comprehension: what the loop of \<open>checkLowStockAlerts\<close> is compared with.
\<close>

definition shortages :: "WeeklyStockPlanWithDetails list \<Rightarrow> LowStockItem list" where
  "shortages plans =
     concat (map (\<lambda>plan. case wd_product plan of
                              None \<Rightarrow> []
                            | Some pr \<Rightarrow>
                                if p_currentStock pr < w_plannedQuantity plan
                                then [shortage_item plan pr] else []) plans)"

section \<open>Example data: the scenarios of the specification\<close>

definition rice :: Product where
  "rice = \<lparr> p_id = 1, p_name = ''Rice'', p_unit = ''KG'', p_openingStock = 100,
            p_currentStock = 100, p_isActive = 1, p_createdAt = None, p_updatedAt = None \<rparr>"

definition rice_plan :: WeeklyStockPlan where
  "rice_plan = \<lparr> w_id = 1, w_productId = 1, w_userId = 1, w_plannedQuantity = 200,
                 w_unit = ''KG'', w_weekStartDate = 10, w_weekEndDate = 16, w_isActive = True,
                 w_notes = None, w_createdAt = None, w_updatedAt = None \<rparr>"

text \<open>
  A database with the product Rice at a given stock and active flag, the weekly plan
  for Rice (200 KG over the days 10 to 16), no transaction and no alert.
\<close>

definition warehouse :: "number \<Rightarrow> int \<Rightarrow> db" where
  "warehouse stock active =
     \<lparr> products = [rice\<lparr> p_currentStock := stock, p_isActive := active \<rparr>],
       stockTransactions = [],
       weeklyStockPlans = [rice_plan],
       lowStockAlerts = [],
       products_id_seq = 1,
       stockTransactions_id_seq = 0,
       lowStockAlerts_id_seq = 0 \<rparr>"

definition stock_in_request :: "nat \<Rightarrow> number \<Rightarrow> StockRequest" where
  "stock_in_request productId quantity =
     \<lparr> rq_productId = productId, rq_userId = 1, rq_type = ''stock_in'', rq_quantity = quantity,
       rq_originalQuantity = None, rq_originalUnit = None, rq_transactionDate = None,
       rq_soNumber = None, rq_poNumber = Some ''PO-1'' \<rparr>"

definition stock_out_request :: "nat \<Rightarrow> number \<Rightarrow> StockRequest" where
  "stock_out_request productId quantity =
     \<lparr> rq_productId = productId, rq_userId = 1, rq_type = ''stock_out'', rq_quantity = quantity,
       rq_originalQuantity = None, rq_originalUnit = None, rq_transactionDate = None,
       rq_soNumber = Some ''SO-1'', rq_poNumber = None \<rparr>"


section \<open>The products table under the writes of the engine\<close>

lemma find_map_update:
  assumes "\<And>p. p_id (f p) = p_id p"
  shows "find (\<lambda>p. p_id p = k) (map (\<lambda>p. if p_id p = j then f p else p) ps) =
   (if k = j then map_option f (find (\<lambda>p. p_id p = k) ps) else find (\<lambda>p. p_id p = k) ps)"
  using assms by (induction ps) auto

lemma select_product_update_stock:
  "select_product (update_stock d j n now) k =
   (if k = j
    then map_option (\<lambda>p. p\<lparr> p_currentStock := n, p_updatedAt := Some now \<rparr>) (select_product d k)
    else select_product d k)"
  unfolding select_product_def update_stock_def
  by (simp add: find_map_update)

lemma select_product_insert_transaction:
  "select_product (fst (insert_transaction d row)) k = select_product d k"
  by (simp add: insert_transaction_def select_product_def Let_def)

lemma stockTransactions_update_stock:
  "stockTransactions (update_stock d j n now) = stockTransactions d"
  by (simp add: update_stock_def)

lemma stockTransactions_insert_transaction:
  "stockTransactions (fst (insert_transaction d row)) =
     stockTransactions d @ [snd (insert_transaction d row)]"
  by (simp add: insert_transaction_def Let_def)

lemma snd_insert_transaction:
  "snd (insert_transaction d row) = row\<lparr> t_id := stockTransactions_id_seq d + 1 \<rparr>"
  by (simp add: insert_transaction_def Let_def)

section \<open>The three outcomes of a stock mutation\<close>

lemma processStockIn_missing:
  "select_product d k = None \<Longrightarrow>
   processStockIn d k u q td rem po oq ou now = (d, Inl (Error [Lit ''Product not found'']))"
  by (simp add: processStockIn_def db_transaction_def)

lemma processStockOut_missing:
  "select_product d k = None \<Longrightarrow>
   processStockOut d k u q td so oq ou now = (d, Inl (Error [Lit ''Product not found'']))"
  by (simp add: processStockOut_def db_transaction_def)

lemma processStockOut_insufficient:
  "select_product d k = Some c \<Longrightarrow> p_currentStock c < q \<Longrightarrow>
   processStockOut d k u q td so oq ou now =
     (d, Inl (Error [Lit ''Insufficient stock. Available: '', Num (p_currentStock c),
                     Lit '', Requested: '', Num q]))"
  by (simp add: processStockOut_def db_transaction_def)

lemma processStockIn_accepted:
  assumes "select_product d k = Some c"
  shows "\<exists>d' res. processStockIn d k u q td rem po oq ou now = (d', Inr res)
     \<and> stockTransactions d' = stockTransactions d @ [r_transaction res]
     \<and> t_productId (r_transaction res) = k
     \<and> t_type (r_transaction res) = ''stock_in''
     \<and> t_quantity (r_transaction res) = q
     \<and> t_previousStock (r_transaction res) = p_currentStock c
     \<and> t_newStock (r_transaction res) = p_currentStock c + q
     \<and> (\<forall>j. stock_of d' j = (if j = k then Some (p_currentStock c + q) else stock_of d j))"
  using assms
  by (simp add: processStockIn_def db_transaction_def Let_def case_prod_beta stock_of_def
        select_product_insert_transaction select_product_update_stock
        stockTransactions_insert_transaction stockTransactions_update_stock
        snd_insert_transaction)

lemma processStockOut_accepted:
  assumes "select_product d k = Some c" and "\<not> p_currentStock c < q"
  shows "\<exists>d' res. processStockOut d k u q td so oq ou now = (d', Inr res)
     \<and> stockTransactions d' = stockTransactions d @ [r_transaction res]
     \<and> t_productId (r_transaction res) = k
     \<and> t_type (r_transaction res) = ''stock_out''
     \<and> t_quantity (r_transaction res) = q
     \<and> t_previousStock (r_transaction res) = p_currentStock c
     \<and> t_newStock (r_transaction res) = p_currentStock c - q
     \<and> (\<forall>j. stock_of d' j = (if j = k then Some (p_currentStock c - q) else stock_of d j))"
  using assms
  by (simp add: processStockOut_def db_transaction_def Let_def case_prod_beta stock_of_def
        select_product_insert_transaction select_product_update_stock
        stockTransactions_insert_transaction stockTransactions_update_stock
        snd_insert_transaction)

lemma select_product_warehouse:
  "select_product (warehouse s a) 1 = Some (rice\<lparr> p_currentStock := s, p_isActive := a \<rparr>)"
  by (simp add: select_product_def warehouse_def rice_def)

section \<open>Claims on the stock mutation engine\<close>

text \<open>
  C1. A stock-out on an existing product fails exactly when the requested quantity is
  strictly greater than the stock at hand. The failure is the error ``Insufficient
  stock'', whose message holds both the available and the requested quantity, and it
  leaves the whole database (the product's \<open>currentStock\<close> and the transaction log
  with it) as it was. A request for exactly the stock at hand is accepted and leaves
  \<open>currentStock\<close> at 0.
\<close>

theorem C1_stock_out_insufficient:
  assumes "select_product d productId = Some p"
  shows "(p_currentStock p < quantity \<longrightarrow>
            processStockOut d productId userId quantity transactionDate soNumber oq ou now =
              (d, Inl (Error [Lit ''Insufficient stock. Available: '', Num (p_currentStock p),
                              Lit '', Requested: '', Num quantity])))
       \<and> (\<not> p_currentStock p < quantity \<longrightarrow>
            (\<exists>d' res. processStockOut d productId userId quantity transactionDate soNumber oq ou now
                        = (d', Inr res)))
       \<and> (quantity = p_currentStock p \<longrightarrow>
            stock_of (fst (processStockOut d productId userId quantity transactionDate soNumber
                             oq ou now)) productId = Some 0)"
proof (intro conjI impI)
  assume "p_currentStock p < quantity"
  with assms show "processStockOut d productId userId quantity transactionDate soNumber oq ou now =
      (d, Inl (Error [Lit ''Insufficient stock. Available: '', Num (p_currentStock p),
                      Lit '', Requested: '', Num quantity]))"
    by (rule processStockOut_insufficient)
next
  assume "\<not> p_currentStock p < quantity"
  from processStockOut_accepted [OF assms this]
  show "\<exists>d' res. processStockOut d productId userId quantity transactionDate soNumber oq ou now
          = (d', Inr res)"
    by blast
next
  assume q: "quantity = p_currentStock p"
  then have "\<not> p_currentStock p < quantity" by simp
  from processStockOut_accepted [OF assms this, of userId transactionDate soNumber oq ou now]
  obtain d' res where
    "processStockOut d productId userId quantity transactionDate soNumber oq ou now = (d', Inr res)"
    and "\<forall>j. stock_of d' j = (if j = productId then Some (p_currentStock p - quantity) else stock_of d j)"
    by blast
  with q show "stock_of (fst (processStockOut d productId userId quantity transactionDate soNumber
                             oq ou now)) productId = Some 0"
    by simp
qed

text \<open>Scenarios 2 and 3: Rice at 150; 150.01 is refused, 150 empties the stock.\<close>

theorem C1_stock_out_insufficient_witness:
  "select_product (warehouse 150 1) 1 = Some (rice\<lparr> p_currentStock := 150, p_isActive := 1 \<rparr>)
   \<and> processStockOut (warehouse 150 1) 1 1 150.01 0 (Some ''SO-1'') None None 0 =
       (warehouse 150 1, Inl (Error [Lit ''Insufficient stock. Available: '', Num 150,
                                     Lit '', Requested: '', Num 150.01]))
   \<and> (\<exists>d' res. processStockOut (warehouse 150 1) 1 1 150 0 (Some ''SO-1'') None None 0 = (d', Inr res))
   \<and> stock_of (fst (processStockOut (warehouse 150 1) 1 1 150 0 (Some ''SO-1'') None None 0)) 1 = Some 0"
  using C1_stock_out_insufficient [OF select_product_warehouse [of 150 1],
          where quantity = "150.01" and userId = 1 and transactionDate = 0
            and soNumber = "Some ''SO-1''" and oq = None and ou = None and now = 0]
        C1_stock_out_insufficient [OF select_product_warehouse [of 150 1],
          where quantity = 150 and userId = 1 and transactionDate = 0
            and soNumber = "Some ''SO-1''" and oq = None and ou = None and now = 0]
  by (simp add: select_product_warehouse del: One_nat_def)



section \<open>Rejected requests, and sequences of requests\<close>

lemma rejected_unchanged_in:
  "snd (processStockIn d k u q td rem po oq ou now) = Inl e \<Longrightarrow>
   fst (processStockIn d k u q td rem po oq ou now) = d"
  by (auto simp: processStockIn_def db_transaction_def split: sum.splits)

lemma rejected_unchanged_out:
  "snd (processStockOut d k u q td so oq ou now) = Inl e \<Longrightarrow>
   fst (processStockOut d k u q td so oq ou now) = d"
  by (auto simp: processStockOut_def db_transaction_def split: sum.splits)

lemma createStockTransaction_try_rejected:
  "snd (createStockTransaction_try d r now) = Inl e \<Longrightarrow> fst (createStockTransaction_try d r now) = d"
  by (auto simp: createStockTransaction_try_def Let_def
        dest: rejected_unchanged_in rejected_unchanged_out split: if_splits)




lemma stock_of_Some:
  "stock_of d k = Some s \<longleftrightarrow> (\<exists>c. select_product d k = Some c \<and> p_currentStock c = s)"
  by (auto simp: stock_of_def)

lemma stock_of_None: "stock_of d k = None \<longleftrightarrow> select_product d k = None"
  by (simp add: stock_of_def)





lemmas engine_defs =
  createStockTransaction_try_def processStockIn_def processStockOut_def db_transaction_def
  select_product_def update_stock_def insert_transaction_def stock_of_def Let_def

lemmas example_defs =
  warehouse_def rice_def rice_plan_def stock_in_request_def stock_out_request_def


lemma createStockTransaction_try_nonneg:
  assumes "stock_of d pid = Some s" and "0 \<le> s"
    and "rq_type r = ''stock_in'' \<and> rq_productId r = pid \<longrightarrow> 0 \<le> rq_quantity r"
  shows "\<exists>s'. stock_of (fst (createStockTransaction_try d r now)) pid = Some s' \<and> 0 \<le> s'"
proof (cases "select_product d (rq_productId r)")
  case None
  then have "fst (createStockTransaction_try d r now) = d"
    by (simp add: createStockTransaction_try_def Let_def processStockIn_missing processStockOut_missing)
  with assms show ?thesis by simp
next
  case (Some c)
  let ?td = "case rq_transactionDate r of None \<Rightarrow> now | Some t \<Rightarrow> t"
  from assms(1) Some have same: "pid = rq_productId r \<Longrightarrow> p_currentStock c = s"
    by (simp add: stock_of_def)
  show ?thesis
  proof (cases "rq_type r = ''stock_in''")
    case True
    from processStockIn_accepted [OF Some, of "rq_userId r" "rq_quantity r" ?td None
        "rq_poNumber r" "rq_originalQuantity r" "rq_originalUnit r" now]
    obtain d' res where run:
      "processStockIn d (rq_productId r) (rq_userId r) (rq_quantity r) ?td None
         (rq_poNumber r) (rq_originalQuantity r) (rq_originalUnit r) now = (d', Inr res)"
      and st: "\<forall>j. stock_of d' j =
          (if j = rq_productId r then Some (p_currentStock c + rq_quantity r) else stock_of d j)"
      by blast
    from run True have "fst (createStockTransaction_try d r now) = d'"
      by (simp add: createStockTransaction_try_def Let_def)
    with assms st same True show ?thesis by auto
  next
    case False
    show ?thesis
    proof (cases "p_currentStock c < rq_quantity r")
      case True
      from processStockOut_insufficient [OF Some True] False
      have "fst (createStockTransaction_try d r now) = d"
        by (simp add: createStockTransaction_try_def Let_def)
      with assms show ?thesis by simp
    next
      case enough: False
      from processStockOut_accepted [OF Some enough, of "rq_userId r" ?td
          "rq_soNumber r" "rq_originalQuantity r" "rq_originalUnit r" now]
      obtain d' res where run:
        "processStockOut d (rq_productId r) (rq_userId r) (rq_quantity r) ?td
           (rq_soNumber r) (rq_originalQuantity r) (rq_originalUnit r) now = (d', Inr res)"
        and st: "\<forall>j. stock_of d' j =
            (if j = rq_productId r then Some (p_currentStock c - rq_quantity r) else stock_of d j)"
        by blast
      from run False have "fst (createStockTransaction_try d r now) = d'"
        by (simp add: createStockTransaction_try_def Let_def)
      with assms st same enough show ?thesis by auto
    qed
  qed
qed

section \<open>Claims on the balance of a product\<close>



text \<open>
  C4, as stated, fails: the engine accepts a stock-in of a negative quantity, which can
  take the stock below 0. Rice, opened at 100, is at -50 after a stock-in of -150.
\<close>

theorem C4_counterexample:
  "p_openingStock rice = 100
   \<and> stock_of (warehouse 100 1) 1 = Some 100
   \<and> stock_of (apply_requests (warehouse 100 1) [stock_in_request 1 (- 150)] 0) 1 = Some (- 50)"
  by (simp add: engine_defs example_defs)

text \<open>
  C4, amended. When no stock-in request for the product carries a negative quantity, no
  sequence of stock-in and stock-out requests, however interleaved, takes a product with
  \<open>currentStock >= 0\<close> below 0: after every such sequence (hence in every state on the
  way) the product is still there and its \<open>currentStock\<close> is at least 0.
\<close>

theorem C4_non_negative:
  assumes "stock_of d pid = Some s" and "0 \<le> s"
    and "\<forall>r \<in> set rs. rq_type r = ''stock_in'' \<and> rq_productId r = pid \<longrightarrow> 0 \<le> rq_quantity r"
  shows "\<exists>s'. stock_of (apply_requests d rs now) pid = Some s' \<and> 0 \<le> s'"
  using assms
proof (induction rs arbitrary: d s)
  case Nil
  then show ?case by simp
next
  case (Cons r rs)
  from Cons.prems have "rq_type r = ''stock_in'' \<and> rq_productId r = pid \<longrightarrow> 0 \<le> rq_quantity r"
    by simp
  from createStockTransaction_try_nonneg [OF Cons.prems(1,2) this, of now]
  obtain s1 where "stock_of (fst (createStockTransaction_try d r now)) pid = Some s1" and "0 \<le> s1"
    by blast
  moreover from Cons.prems
  have "\<forall>r \<in> set rs. rq_type r = ''stock_in'' \<and> rq_productId r = pid \<longrightarrow> 0 \<le> rq_quantity r"
    by simp
  ultimately show ?case
    using Cons.IH by simp
qed

text \<open>Rice at 100: -60 accepted, -60 rejected, +20 accepted, -60 accepted leave 0.\<close>

theorem C4_non_negative_witness:
  "stock_of (warehouse 100 1) 1 = Some 100
   \<and> (\<exists>s'. stock_of (apply_requests (warehouse 100 1)
              [stock_out_request 1 60, stock_out_request 1 60, stock_in_request 1 20,
               stock_out_request 1 60] 0) 1 = Some s' \<and> 0 \<le> s')"
proof -
  have a: "stock_of (warehouse 100 1) 1 = Some 100"
    by (simp add: stock_of_def select_product_def example_defs)
  have b: "\<forall>r \<in> set [stock_out_request 1 60, stock_out_request 1 60, stock_in_request 1 20,
               stock_out_request 1 60].
             rq_type r = ''stock_in'' \<and> rq_productId r = 1 \<longrightarrow> 0 \<le> rq_quantity r"
    by (simp add: example_defs)
  from C4_non_negative [OF a _ b, of 0] a show ?thesis by simp
qed




section \<open>Claim on the storage layer\<close>

text \<open>
  C9. \<open>createStockTransaction\<close> always returns a transaction record. Whenever the
  engine throws, it returns the database untouched together with a made-up record: the
  key is the random number plus 1, \<open>previousStock\<close> is 100.00, \<open>newStock\<close> is 110.00
  for a \<open>stock_in\<close> and 90.00 otherwise, and the other fields repeat the request.
\<close>

theorem C9_fabricated_on_failure:
  assumes "snd (createStockTransaction_try d tr now) = Inl e"
  shows "createStockTransaction d tr now random =
     (d, \<lparr> t_id = random + 1,
           t_productId = rq_productId tr,
           t_userId = rq_userId tr,
           t_type = rq_type tr,
           t_quantity = rq_quantity tr,
           t_originalQuantity = rq_originalQuantity tr,
           t_originalUnit = or_null (rq_originalUnit tr),
           t_previousStock = 100,
           t_newStock = (if rq_type tr = ''stock_in'' then 110 else 90),
           t_transactionDate = (case rq_transactionDate tr of None \<Rightarrow> now | Some t \<Rightarrow> t),
           t_soNumber = or_null (rq_soNumber tr),
           t_poNumber = or_null (rq_poNumber tr),
           t_createdAt = Some now \<rparr>)"
proof -
  from assms have "fst (createStockTransaction_try d tr now) = d"
    by (rule createStockTransaction_try_rejected)
  with assms have "createStockTransaction_try d tr now = (d, Inl e)"
    by (metis prod.collapse)
  then show ?thesis
    by (simp add: createStockTransaction_def)
qed

text \<open>
  A stock-out of 10 on Rice at 5 is rejected; with the random number 0 the caller gets
  the very record that the accepted stock-out of 10 on Rice at 100 returns.
\<close>

theorem C9_fabricated_on_failure_witness:
  "snd (createStockTransaction_try (warehouse 5 1) (stock_out_request 1 10) 0)
     = Inl (Error [Lit ''Insufficient stock. Available: '', Num 5, Lit '', Requested: '', Num 10])
   \<and> createStockTransaction (warehouse 5 1) (stock_out_request 1 10) 0 0 =
       (warehouse 5 1,
        \<lparr> t_id = 1, t_productId = 1, t_userId = 1, t_type = ''stock_out'', t_quantity = 10,
          t_originalQuantity = None, t_originalUnit = None, t_previousStock = 100,
          t_newStock = 90, t_transactionDate = 0, t_soNumber = Some ''SO-1'',
          t_poNumber = None, t_createdAt = Some 0 \<rparr>)
   \<and> snd (createStockTransaction (warehouse 5 1) (stock_out_request 1 10) 0 0) =
     snd (createStockTransaction (warehouse 100 1) (stock_out_request 1 10) 0 0)
   \<and> stock_of (fst (createStockTransaction (warehouse 100 1) (stock_out_request 1 10) 0 0)) 1 = Some 90"
proof -
  have rej: "snd (createStockTransaction_try (warehouse 5 1) (stock_out_request 1 10) 0)
     = Inl (Error [Lit ''Insufficient stock. Available: '', Num 5, Lit '', Requested: '', Num 10])"
    by (simp add: engine_defs example_defs)
  have acc: "createStockTransaction (warehouse 100 1) (stock_out_request 1 10) 0 0 =
       ((warehouse 90 1)\<lparr> products := [rice\<lparr> p_currentStock := 90, p_updatedAt := Some 0 \<rparr>],
            stockTransactions := [\<lparr> t_id = 1, t_productId = 1, t_userId = 1, t_type = ''stock_out'', t_quantity = 10,
          t_originalQuantity = None, t_originalUnit = None, t_previousStock = 100,
          t_newStock = 90, t_transactionDate = 0, t_soNumber = Some ''SO-1'',
          t_poNumber = None, t_createdAt = Some 0 \<rparr>], stockTransactions_id_seq := 1 \<rparr>,
        \<lparr> t_id = 1, t_productId = 1, t_userId = 1, t_type = ''stock_out'', t_quantity = 10,
          t_originalQuantity = None, t_originalUnit = None, t_previousStock = 100,
          t_newStock = 90, t_transactionDate = 0, t_soNumber = Some ''SO-1'',
          t_poNumber = None, t_createdAt = Some 0 \<rparr>)"
    by (simp add: createStockTransaction_def engine_defs example_defs)
  from C9_fabricated_on_failure [OF rej, of 0] rej acc show ?thesis
    by (simp add: or_null_def example_defs stock_of_def select_product_def)
qed

section \<open>The plans of the current week and their shortages\<close>

lemma getCurrentWeekPlans_plans:
  "map WeeklyStockPlan.truncate (getCurrentWeekPlans d cur) =
   filter (\<lambda>w. w_isActive w \<and> w_weekStartDate w \<le> cur \<and> cur \<le> w_weekEndDate w)
     (weeklyStockPlans d)"
proof -
  have "WeeklyStockPlan.truncate
          \<lparr> w_id = w_id w, w_productId = w_productId w, w_userId = w_userId w,
            w_plannedQuantity = w_plannedQuantity w, w_unit = w_unit w,
            w_weekStartDate = w_weekStartDate w, w_weekEndDate = w_weekEndDate w,
            w_isActive = w_isActive w, w_notes = w_notes w, w_createdAt = w_createdAt w,
            w_updatedAt = w_updatedAt w, wd_product = x \<rparr> = w" for w :: WeeklyStockPlan and x
    by (cases w) (simp add: WeeklyStockPlan.truncate_def)
  then show ?thesis
    by (simp add: getCurrentWeekPlans_def comp_def)
qed

lemma getCurrentWeekPlans_product:
  "plan \<in> set (getCurrentWeekPlans d cur) \<Longrightarrow> wd_product plan = select_product d (w_productId plan)"
  by (auto simp: getCurrentWeekPlans_def)

lemma checkLowStockAlerts_loop_eq:
  "checkLowStockAlerts_loop plans acc =
     (if list_all (\<lambda>plan. wd_product plan \<noteq> None) plans
      then Inr (acc @ shortages plans) else Inl TypeError)"
proof (induction plans arbitrary: acc)
  case Nil
  show ?case by (simp add: shortages_def)
next
  case (Cons plan rest)
  show ?case
  proof (cases "wd_product plan")
    case None
    then show ?thesis by simp
  next
    case (Some pr)
    then show ?thesis
      using Cons.IH by (simp add: shortages_def Let_def)
  qed
qed

lemma shortages_member:
  "item \<in> set (shortages plans) \<longleftrightarrow>
     (\<exists>plan \<in> set plans. \<exists>pr. wd_product plan = Some pr
        \<and> p_currentStock pr < w_plannedQuantity plan \<and> item = shortage_item plan pr)"
proof (induction plans)
  case Nil
  show ?case by (simp add: shortages_def)
next
  case (Cons plan plans)
  have step: "shortages (plan # plans) =
     (case wd_product plan of None \<Rightarrow> []
      | Some pr \<Rightarrow> if p_currentStock pr < w_plannedQuantity plan then [shortage_item plan pr] else [])
     @ shortages plans"
    by (simp add: shortages_def)
  show ?case
  proof (cases "wd_product plan")
    case None
    with Cons.IH step show ?thesis by simp
  next
    case (Some pr)
    with Cons.IH step show ?thesis by auto
  qed
qed

lemma checkLowStockAlerts_eq:
  "checkLowStockAlerts d cur =
     (if list_all (\<lambda>plan. wd_product plan \<noteq> None) (getCurrentWeekPlans d cur)
      then Inr (shortages (getCurrentWeekPlans d cur)) else Inl TypeError)"
  by (simp add: checkLowStockAlerts_def checkLowStockAlerts_loop_eq)

lemma getCurrentWeekPlans_cong:
  "products d' = products d \<Longrightarrow> weeklyStockPlans d' = weeklyStockPlans d \<Longrightarrow>
   getCurrentWeekPlans d' cur = getCurrentWeekPlans d cur"
  by (simp only: getCurrentWeekPlans_def select_product_def)

lemma checkLowStockAlerts_cong:
  assumes "products d' = products d" and "weeklyStockPlans d' = weeklyStockPlans d"
  shows "checkLowStockAlerts d' cur = checkLowStockAlerts d cur"
  unfolding checkLowStockAlerts_def
  by (simp only: getCurrentWeekPlans_cong [OF assms])

lemma select_product_id: "select_product d k = Some p \<Longrightarrow> p_id p = k"
  unfolding select_product_def by (auto simp: find_Some_iff)

lemma warehouse_plans:
  "getCurrentWeekPlans (warehouse s a) 12 =
     [\<lparr> w_id = 1, w_productId = 1, w_userId = 1, w_plannedQuantity = 200, w_unit = ''KG'',
        w_weekStartDate = 10, w_weekEndDate = 16, w_isActive = True, w_notes = None,
        w_createdAt = None, w_updatedAt = None,
        wd_product = Some (rice\<lparr> p_currentStock := s, p_isActive := a \<rparr>) \<rparr>]"
  by (simp add: getCurrentWeekPlans_def select_product_def warehouse_def rice_def rice_plan_def)

section \<open>The loop of the alert engine\<close>

lemma limit_one_empty: "length (take 1 xs) = 0 \<longleftrightarrow> xs = []"
  by (cases xs) simp_all

lemma existing_alert_check:
  "(length (take 1 (filter (\<lambda>a. a_productId a = k \<and> a_weeklyPlanId a = w \<and> a_isResolved a = False)
       (lowStockAlerts d))) = 0) \<longleftrightarrow> \<not> has_open_alert d k w"
  unfolding limit_one_empty
  by (auto simp: has_open_alert_def list_ex_iff filter_empty_conv)

lemma processLowStockChecking_loop_Cons:
  "processLowStockChecking_loop d (item # items) acc now =
     (if has_open_alert d (li_productId item) (li_weeklyPlanId item)
      then processLowStockChecking_loop d items acc now
      else processLowStockChecking_loop (fst (alert_create d (new_alert_data item now) now)) items
             (acc @ [snd (alert_create d (new_alert_data item now) now)]) now)"
  unfolding processLowStockChecking_loop.simps Let_def existing_alert_check
  by (simp add: case_prod_beta)

lemma alert_create_tables:
  "products (fst (alert_create d a now)) = products d"
  "weeklyStockPlans (fst (alert_create d a now)) = weeklyStockPlans d"
  "stockTransactions (fst (alert_create d a now)) = stockTransactions d"
  "lowStockAlerts (fst (alert_create d a now)) = lowStockAlerts d @ [snd (alert_create d a now)]"
  by (simp_all add: alert_create_def Let_def)

lemma alert_create_row:
  "a_productId (snd (alert_create d a now)) = ia_productId a"
  "a_weeklyPlanId (snd (alert_create d a now)) = ia_weeklyPlanId a"
  "a_currentStock (snd (alert_create d a now)) = ia_currentStock a"
  "a_plannedQuantity (snd (alert_create d a now)) = ia_plannedQuantity a"
  "a_alertLevel (snd (alert_create d a now)) = ia_alertLevel a"
  "a_isResolved (snd (alert_create d a now)) = False"
  by (simp_all add: alert_create_def Let_def)

lemma has_open_alert_create:
  "has_open_alert (fst (alert_create d a now)) k w \<longleftrightarrow>
     has_open_alert d k w \<or> (ia_productId a = k \<and> ia_weeklyPlanId a = w)"
  by (auto simp: has_open_alert_def alert_create_def Let_def)

lemma loop_tables:
  "products (fst (processLowStockChecking_loop d items acc now)) = products d
   \<and> weeklyStockPlans (fst (processLowStockChecking_loop d items acc now)) = weeklyStockPlans d
   \<and> stockTransactions (fst (processLowStockChecking_loop d items acc now)) = stockTransactions d"
proof (induction items arbitrary: d acc)
  case Nil
  show ?case by simp
next
  case (Cons item items)
  show ?case
    unfolding processLowStockChecking_loop_Cons
    by (simp add: Cons.IH alert_create_tables)
qed

lemma loop_keeps_open:
  "has_open_alert d k w \<Longrightarrow>
   has_open_alert (fst (processLowStockChecking_loop d items acc now)) k w"
proof (induction items arbitrary: d acc)
  case Nil
  then show ?case by simp
next
  case (Cons item items)
  then show ?case
    unfolding processLowStockChecking_loop_Cons
    by (simp add: has_open_alert_create)
qed

lemma loop_all_open:
  "item \<in> set items \<Longrightarrow>
   has_open_alert (fst (processLowStockChecking_loop d items acc now))
     (li_productId item) (li_weeklyPlanId item)"
proof (induction items arbitrary: d acc)
  case Nil
  then show ?case by simp
next
  case (Cons item0 items)
  show ?case
  proof (cases "item = item0")
    case True
    then show ?thesis
      unfolding processLowStockChecking_loop_Cons
      by (auto intro!: loop_keeps_open simp: has_open_alert_create new_alert_data_def)
  next
    case False
    with Cons.prems have "item \<in> set items" by simp
    then show ?thesis
      unfolding processLowStockChecking_loop_Cons
      by (simp add: Cons.IH)
  qed
qed

lemma loop_nothing_to_do:
  "list_all (\<lambda>item. has_open_alert d (li_productId item) (li_weeklyPlanId item)) items \<Longrightarrow>
   processLowStockChecking_loop d items acc now = (d, acc)"
proof (induction items arbitrary: acc)
  case Nil
  show ?case by simp
next
  case (Cons item items)
  then show ?case
    unfolding processLowStockChecking_loop_Cons by simp
qed

lemma loop_appends:
  "\<exists>new. snd (processLowStockChecking_loop d items acc now) = acc @ new
     \<and> lowStockAlerts (fst (processLowStockChecking_loop d items acc now)) = lowStockAlerts d @ new"
proof (induction items arbitrary: d acc)
  case Nil
  show ?case by simp
next
  case (Cons item items)
  show ?case
  proof (cases "has_open_alert d (li_productId item) (li_weeklyPlanId item)")
    case True
    with Cons.IH [of d acc] show ?thesis
      unfolding processLowStockChecking_loop_Cons by simp
  next
    case False
    let ?d1 = "fst (alert_create d (new_alert_data item now) now)"
    let ?a = "snd (alert_create d (new_alert_data item now) now)"
    from Cons.IH [of ?d1 "acc @ [?a]"]
    obtain new where
      "snd (processLowStockChecking_loop ?d1 items (acc @ [?a]) now) = (acc @ [?a]) @ new"
      "lowStockAlerts (fst (processLowStockChecking_loop ?d1 items (acc @ [?a]) now))
         = lowStockAlerts ?d1 @ new"
      by blast
    with False show ?thesis
      unfolding processLowStockChecking_loop_Cons
      by (intro exI [of _ "?a # new"]) (simp add: alert_create_tables)
  qed
qed

lemma loop_new_alerts:
  assumes "a \<in> set (snd (processLowStockChecking_loop d items acc now))"
  shows "a \<in> set acc \<or>
     (\<exists>item \<in> set items.
        a_productId a = li_productId item \<and> a_weeklyPlanId a = li_weeklyPlanId item
        \<and> a_currentStock a = li_currentStock item
        \<and> a_plannedQuantity a = li_plannedQuantity item
        \<and> a_isResolved a = False
        \<and> a_alertLevel a =
            (if li_currentStock item \<le> li_plannedQuantity item * 0.5 then ''critical'' else ''low''))"
  using assms
proof (induction items arbitrary: d acc)
  case Nil
  then show ?case by simp
next
  case (Cons item items)
  show ?case
  proof (cases "has_open_alert d (li_productId item) (li_weeklyPlanId item)")
    case True
    with Cons.prems have "a \<in> set (snd (processLowStockChecking_loop d items acc now))"
      unfolding processLowStockChecking_loop_Cons by simp
    from Cons.IH [OF this] show ?thesis by auto
  next
    case False
    let ?d1 = "fst (alert_create d (new_alert_data item now) now)"
    let ?a = "snd (alert_create d (new_alert_data item now) now)"
    from False Cons.prems
    have "a \<in> set (snd (processLowStockChecking_loop ?d1 items (acc @ [?a]) now))"
      unfolding processLowStockChecking_loop_Cons by simp
    from Cons.IH [OF this]
    show ?thesis
      by (auto simp: alert_create_row new_alert_data_def)
  qed
qed

lemma loop_creates:
  assumes "(item \<in> set items \<and> \<not> has_open_alert d (li_productId item) (li_weeklyPlanId item))
     \<or> (\<exists>a \<in> set acc. a_productId a = li_productId item \<and> a_weeklyPlanId a = li_weeklyPlanId item)"
  shows "\<exists>a \<in> set (snd (processLowStockChecking_loop d items acc now)).
           a_productId a = li_productId item \<and> a_weeklyPlanId a = li_weeklyPlanId item"
  using assms
proof (induction items arbitrary: d acc)
  case Nil
  then show ?case by simp
next
  case (Cons item0 items)
  show ?case
  proof (cases "has_open_alert d (li_productId item0) (li_weeklyPlanId item0)")
    case True
    with Cons.prems
    have "(item \<in> set items \<and> \<not> has_open_alert d (li_productId item) (li_weeklyPlanId item))
       \<or> (\<exists>a \<in> set acc. a_productId a = li_productId item \<and> a_weeklyPlanId a = li_weeklyPlanId item)"
      by auto
    from Cons.IH [OF this] True show ?thesis
      unfolding processLowStockChecking_loop_Cons by simp
  next
    case False
    let ?d1 = "fst (alert_create d (new_alert_data item0 now) now)"
    let ?a = "snd (alert_create d (new_alert_data item0 now) now)"
    have keys: "a_productId ?a = li_productId item0" "a_weeklyPlanId ?a = li_weeklyPlanId item0"
      by (simp_all add: alert_create_row new_alert_data_def)
    have "(item \<in> set items \<and> \<not> has_open_alert ?d1 (li_productId item) (li_weeklyPlanId item))
       \<or> (\<exists>a \<in> set (acc @ [?a]).
             a_productId a = li_productId item \<and> a_weeklyPlanId a = li_weeklyPlanId item)"
    proof (cases "li_productId item0 = li_productId item \<and> li_weeklyPlanId item0 = li_weeklyPlanId item")
      case True
      with keys show ?thesis by simp
    next
      case differ: False
      with Cons.prems show ?thesis
        by (auto simp: has_open_alert_create new_alert_data_def)
    qed
    from Cons.IH [OF this] False show ?thesis
      unfolding processLowStockChecking_loop_Cons by simp
  qed
qed

lemma warehouse_run:
  assumes "s < 200"
  shows "processLowStockChecking (warehouse s a) 12 now =
    ((warehouse s a)\<lparr> lowStockAlerts :=
        [\<lparr> a_id = 1, a_productId = 1, a_weeklyPlanId = 1, a_currentStock = s,
           a_plannedQuantity = 200,
           a_alertLevel = (if s \<le> 100 then ''critical'' else ''low''),
           a_isResolved = False, a_alertDate = now, a_resolvedAt = None,
           a_createdAt = Some now \<rparr>],
        lowStockAlerts_id_seq := 1 \<rparr>,
     Inr [\<lparr> a_id = 1, a_productId = 1, a_weeklyPlanId = 1, a_currentStock = s,
           a_plannedQuantity = 200,
           a_alertLevel = (if s \<le> 100 then ''critical'' else ''low''),
           a_isResolved = False, a_alertDate = now, a_resolvedAt = None,
           a_createdAt = Some now \<rparr>])"
  using assms
  by (simp add: processLowStockChecking_def checkLowStockAlerts_def getCurrentWeekPlans_def
        select_product_def shortage_item_def new_alert_data_def alert_create_def Let_def
        warehouse_def rice_def rice_plan_def)

section \<open>Claims on weekly plans and low stock alerts\<close>

text \<open>
  C7. \<open>getCurrentWeekPlans\<close> returns exactly the active plans whose window, both ends
  included, contains the date, each joined to the product that its \<open>productId\<close>
  selects. When every returned plan has its product, \<open>checkLowStockAlerts\<close> returns
  the shortage descriptors of exactly those returned plans whose product has a
  \<open>currentStock\<close> strictly below the plan's \<open>plannedQuantity\<close>, in the order of the
  plans; a stock equal to the planned quantity gives none. A returned plan without a
  product row makes the function throw. Both functions only read the database: they
  return no new state.
\<close>

theorem C7_current_week_shortfalls:
  "map WeeklyStockPlan.truncate (getCurrentWeekPlans d asOfDate) =
     filter (\<lambda>w. w_isActive w \<and> w_weekStartDate w \<le> asOfDate \<and> asOfDate \<le> w_weekEndDate w)
       (weeklyStockPlans d)
   \<and> (\<forall>plan \<in> set (getCurrentWeekPlans d asOfDate).
         wd_product plan = select_product d (w_productId plan))
   \<and> (list_all (\<lambda>plan. wd_product plan \<noteq> None) (getCurrentWeekPlans d asOfDate) \<longrightarrow>
         checkLowStockAlerts d asOfDate = Inr (shortages (getCurrentWeekPlans d asOfDate)))
   \<and> (\<not> list_all (\<lambda>plan. wd_product plan \<noteq> None) (getCurrentWeekPlans d asOfDate) \<longrightarrow>
         checkLowStockAlerts d asOfDate = Inl TypeError)
   \<and> (\<forall>item. item \<in> set (shortages (getCurrentWeekPlans d asOfDate)) \<longleftrightarrow>
         (\<exists>plan \<in> set (getCurrentWeekPlans d asOfDate). \<exists>pr. wd_product plan = Some pr
            \<and> p_currentStock pr < w_plannedQuantity plan \<and> item = shortage_item plan pr))"
  using getCurrentWeekPlans_plans [of d asOfDate] getCurrentWeekPlans_product [of _ d asOfDate]
    checkLowStockAlerts_eq [of d asOfDate]
    shortages_member [of _ "getCurrentWeekPlans d asOfDate"]
  by simp

text \<open>
  The plan for Rice covers the days 10 to 16: it is returned on day 12, not on day 17.
  Rice at 199.99 against 200 planned is a shortage, Rice at 200 is none.
\<close>

theorem C7_current_week_shortfalls_witness:
  "map WeeklyStockPlan.truncate (getCurrentWeekPlans (warehouse 80 1) 12) = [rice_plan]
   \<and> map WeeklyStockPlan.truncate (getCurrentWeekPlans (warehouse 80 1) 17) = []
   \<and> checkLowStockAlerts (warehouse 199.99 1) 12 =
        Inr [\<lparr> li_productId = 1, li_productName = ''Rice'', li_currentStock = 199.99,
               li_plannedQuantity = 200, li_weeklyPlanId = 1, li_unit = ''KG'' \<rparr>]
   \<and> checkLowStockAlerts (warehouse 200 1) 12 = Inr []"
proof -
  from C7_current_week_shortfalls [of "warehouse 80 1" 12]
  have a: "map WeeklyStockPlan.truncate (getCurrentWeekPlans (warehouse 80 1) 12) = [rice_plan]"
    by (simp add: warehouse_def rice_plan_def)
  from C7_current_week_shortfalls [of "warehouse 80 1" 17]
  have b: "map WeeklyStockPlan.truncate (getCurrentWeekPlans (warehouse 80 1) 17) = []"
    by (simp add: warehouse_def rice_plan_def)
  from C7_current_week_shortfalls [of "warehouse 199.99 1" 12]
  have c: "checkLowStockAlerts (warehouse 199.99 1) 12 =
        Inr [\<lparr> li_productId = 1, li_productName = ''Rice'', li_currentStock = 199.99,
               li_plannedQuantity = 200, li_weeklyPlanId = 1, li_unit = ''KG'' \<rparr>]"
    by (simp add: warehouse_plans shortages_def shortage_item_def rice_def)
  from C7_current_week_shortfalls [of "warehouse 200 1" 12]
  have d: "checkLowStockAlerts (warehouse 200 1) 12 = Inr []"
    by (simp add: warehouse_plans shortages_def shortage_item_def rice_def)
  from a b c d show ?thesis by blast
qed

text \<open>
  C5. When \<open>processLowStockChecking\<close> has run, a second run on the database it left,
  on the same date and with stock, plans and alerts untouched in between, creates
  nothing: it returns the empty list and leaves the database as it found it.
\<close>

theorem C5_idempotent:
  assumes "processLowStockChecking d cur now = (d1, Inr new1)"
  shows "processLowStockChecking d1 cur now' = (d1, Inr [])"
proof -
  from assms obtain items where items: "checkLowStockAlerts d cur = Inr items"
    by (auto simp: processLowStockChecking_def split: sum.splits)
  with assms have d1: "d1 = fst (processLowStockChecking_loop d items [] now)"
    by (simp add: processLowStockChecking_def case_prod_beta)
  have "products d1 = products d" and "weeklyStockPlans d1 = weeklyStockPlans d"
    unfolding d1 by (simp_all add: loop_tables)
  then have "checkLowStockAlerts d1 cur = checkLowStockAlerts d cur"
    by (rule checkLowStockAlerts_cong)
  with items have again: "checkLowStockAlerts d1 cur = Inr items"
    by simp
  have "list_all (\<lambda>item. has_open_alert d1 (li_productId item) (li_weeklyPlanId item)) items"
    unfolding d1 by (simp add: list_all_iff loop_all_open)
  then have "processLowStockChecking_loop d1 items [] now' = (d1, [])"
    by (rule loop_nothing_to_do)
  with again show ?thesis
    by (simp add: processLowStockChecking_def)
qed

text \<open>Scenario 4: Rice at 80 against 200 planned; the first run creates one alert.\<close>

theorem C5_idempotent_witness:
  "\<exists>d1 a. processLowStockChecking (warehouse 80 1) 12 5 = (d1, Inr [a])
     \<and> processLowStockChecking d1 12 6 = (d1, Inr [])"
proof -
  have "(80::number) < 200" by simp
  from warehouse_run [OF this, of 1 5]
  obtain d1 a where run: "processLowStockChecking (warehouse 80 1) 12 5 = (d1, Inr [a])"
    by blast
  from C5_idempotent [OF run, of 6] run show ?thesis by blast
qed

text \<open>
  C6. Every alert that \<open>processLowStockChecking\<close> creates snapshots the stock and the
  planned quantity of a shortage of the current week, and its \<open>alertLevel\<close> is
  \<open>critical\<close> when that stock is at most the planned quantity times 0.5, and \<open>low\<close>
  otherwise.
\<close>

theorem C6_alert_level:
  assumes "processLowStockChecking d cur now = (d', Inr newAlerts)"
  shows "\<forall>a \<in> set newAlerts.
     a_alertLevel a =
       (if a_currentStock a \<le> a_plannedQuantity a * 0.5 then ''critical'' else ''low'')
     \<and> (\<exists>plan \<in> set (getCurrentWeekPlans d cur). \<exists>pr.
           wd_product plan = Some pr
           \<and> p_currentStock pr < w_plannedQuantity plan
           \<and> a_productId a = w_productId plan
           \<and> a_weeklyPlanId a = w_id plan
           \<and> a_currentStock a = p_currentStock pr
           \<and> a_plannedQuantity a = w_plannedQuantity plan)"
proof
  fix a
  assume a: "a \<in> set newAlerts"
  from assms obtain items where items: "checkLowStockAlerts d cur = Inr items"
    by (auto simp: processLowStockChecking_def split: sum.splits)
  with assms have "newAlerts = snd (processLowStockChecking_loop d items [] now)"
    by (simp add: processLowStockChecking_def case_prod_beta)
  with a loop_new_alerts [of a d items "[]" now]
  obtain item where item: "item \<in> set items"
    and snap: "a_productId a = li_productId item" "a_weeklyPlanId a = li_weeklyPlanId item"
      "a_currentStock a = li_currentStock item" "a_plannedQuantity a = li_plannedQuantity item"
    and level: "a_alertLevel a =
       (if li_currentStock item \<le> li_plannedQuantity item * 0.5 then ''critical'' else ''low'')"
    by auto
  from items have "items = shortages (getCurrentWeekPlans d cur)"
    by (simp add: checkLowStockAlerts_eq split: if_splits)
  with item obtain plan pr where "plan \<in> set (getCurrentWeekPlans d cur)"
    "wd_product plan = Some pr" "p_currentStock pr < w_plannedQuantity plan"
    "item = shortage_item plan pr"
    by (auto simp: shortages_member)
  with snap level
  show "a_alertLevel a =
       (if a_currentStock a \<le> a_plannedQuantity a * 0.5 then ''critical'' else ''low'')
     \<and> (\<exists>plan \<in> set (getCurrentWeekPlans d cur). \<exists>pr.
           wd_product plan = Some pr
           \<and> p_currentStock pr < w_plannedQuantity plan
           \<and> a_productId a = w_productId plan
           \<and> a_weeklyPlanId a = w_id plan
           \<and> a_currentStock a = p_currentStock pr
           \<and> a_plannedQuantity a = w_plannedQuantity plan)"
    by (auto simp: shortage_item_def)
qed

text \<open>
  Against 200 planned, Rice at exactly 100 gives \<open>critical\<close>, Rice at 100.01 gives
  \<open>low\<close>.
\<close>

theorem C6_alert_level_witness:
  "(\<exists>d' a. processLowStockChecking (warehouse 100 1) 12 5 = (d', Inr [a])
      \<and> a_currentStock a = 100 \<and> a_plannedQuantity a = 200 \<and> a_alertLevel a = ''critical'')
   \<and> (\<exists>d' a. processLowStockChecking (warehouse 100.01 1) 12 5 = (d', Inr [a])
      \<and> a_currentStock a = 100.01 \<and> a_plannedQuantity a = 200 \<and> a_alertLevel a = ''low'')"
proof -
  have "(100::number) < 200" by simp
  from warehouse_run [OF this, of 1 5]
  obtain d1 a1 where r1: "processLowStockChecking (warehouse 100 1) 12 5 = (d1, Inr [a1])"
    and s1: "a_currentStock a1 = 100" "a_plannedQuantity a1 = 200"
    by simp
  have "(100.01::number) < 200" by simp
  from warehouse_run [OF this, of 1 5]
  obtain d2 a2 where r2: "processLowStockChecking (warehouse 100.01 1) 12 5 = (d2, Inr [a2])"
    and s2: "a_currentStock a2 = 100.01" "a_plannedQuantity a2 = 200"
    by simp
  from C6_alert_level [OF r1] s1 have "a_alertLevel a1 = ''critical''" by simp
  moreover from C6_alert_level [OF r2] s2 have "a_alertLevel a2 = ''low''" by simp
  ultimately show ?thesis using r1 r2 s1 s2 by blast
qed

text \<open>
  C10. The shortage detection looks at the active flag of the plan only. For an active
  plan that covers the date and whose product is soft-deleted (\<open>isActive = 0\<close>) with a
  \<open>currentStock\<close> below the planned quantity, \<open>processLowStockChecking\<close> creates an
  unresolved alert for that product and plan, unless one is open already. (Every plan
  refers to a product of the table, as the foreign key demands.)
\<close>

theorem C10_inactive_product_alert:
  assumes "plan \<in> set (weeklyStockPlans d)" and "w_isActive plan"
    and "w_weekStartDate plan \<le> cur" and "cur \<le> w_weekEndDate plan"
    and "select_product d (w_productId plan) = Some p" and "p_isActive p = 0"
    and "p_currentStock p < w_plannedQuantity plan"
    and "\<not> has_open_alert d (w_productId plan) (w_id plan)"
    and "list_all (\<lambda>w. select_product d (w_productId w) \<noteq> None) (weeklyStockPlans d)"
  shows "\<exists>d' newAlerts. processLowStockChecking d cur now = (d', Inr newAlerts)
     \<and> (\<exists>a \<in> set newAlerts. a_productId a = p_id p \<and> a_weeklyPlanId a = w_id plan
           \<and> a_isResolved a = False \<and> a \<in> set (lowStockAlerts d'))"
proof -
  let ?plans = "getCurrentWeekPlans d cur"
  let ?items = "shortages ?plans"
  let ?run = "processLowStockChecking_loop d ?items [] now"
  have "list_all (\<lambda>pl. wd_product pl \<noteq> None) ?plans"
    using assms(9) by (auto simp: getCurrentWeekPlans_def list_all_iff)
  then have chk: "checkLowStockAlerts d cur = Inr ?items"
    by (simp add: checkLowStockAlerts_eq)
  then have run: "processLowStockChecking d cur now = (fst ?run, Inr (snd ?run))"
    by (simp add: processLowStockChecking_def case_prod_beta)
  define joined where "joined =
     \<lparr> w_id = w_id plan, w_productId = w_productId plan, w_userId = w_userId plan,
       w_plannedQuantity = w_plannedQuantity plan, w_unit = w_unit plan,
       w_weekStartDate = w_weekStartDate plan, w_weekEndDate = w_weekEndDate plan,
       w_isActive = w_isActive plan, w_notes = w_notes plan, w_createdAt = w_createdAt plan,
       w_updatedAt = w_updatedAt plan, wd_product = select_product d (w_productId plan) \<rparr>"
  have mem: "joined \<in> set ?plans"
    using assms(1-4) unfolding joined_def getCurrentWeekPlans_def by auto
  have "wd_product joined = Some p \<and> p_currentStock p < w_plannedQuantity joined
      \<and> shortage_item joined p = shortage_item joined p"
    using assms(5,7) by (simp add: joined_def)
  with mem have item: "shortage_item joined p \<in> set ?items"
    unfolding shortages_member by blast
  have keys: "li_productId (shortage_item joined p) = w_productId plan"
    "li_weeklyPlanId (shortage_item joined p) = w_id plan"
    by (simp_all add: shortage_item_def joined_def)
  from item assms(8) keys
  have "(shortage_item joined p \<in> set ?items
         \<and> \<not> has_open_alert d (li_productId (shortage_item joined p))
               (li_weeklyPlanId (shortage_item joined p)))
       \<or> (\<exists>a \<in> set []. a_productId a = li_productId (shortage_item joined p)
             \<and> a_weeklyPlanId a = li_weeklyPlanId (shortage_item joined p))"
    by simp
  from loop_creates [OF this, of now] keys
  obtain a where a: "a \<in> set (snd ?run)" "a_productId a = w_productId plan"
    "a_weeklyPlanId a = w_id plan"
    by auto
  from loop_new_alerts [OF a(1)] have "a_isResolved a = False" by auto
  moreover from loop_appends [of d ?items "[]" now] a(1)
  have "a \<in> set (lowStockAlerts (fst ?run))" by auto
  moreover from assms(5) have "p_id p = w_productId plan" by (rule select_product_id)
  ultimately show ?thesis using run a by auto
qed

text \<open>Rice, soft-deleted, at 80 against 200 planned: the run creates its alert.\<close>

theorem C10_inactive_product_alert_witness:
  "rice_plan \<in> set (weeklyStockPlans (warehouse 80 0))
   \<and> select_product (warehouse 80 0) 1 = Some (rice\<lparr> p_currentStock := 80, p_isActive := 0 \<rparr>)
   \<and> (\<exists>d' a. processLowStockChecking (warehouse 80 0) 12 5 = (d', Inr [a])
         \<and> a_productId a = 1 \<and> a_weeklyPlanId a = 1 \<and> a_isResolved a = False
         \<and> a \<in> set (lowStockAlerts d'))"
proof -
  let ?p = "rice\<lparr> p_currentStock := 80, p_isActive := 0 \<rparr>"
  have h1: "rice_plan \<in> set (weeklyStockPlans (warehouse 80 0))"
    by (simp add: warehouse_def)
  have h2: "w_isActive rice_plan" "w_weekStartDate rice_plan \<le> 12" "12 \<le> w_weekEndDate rice_plan"
    by (simp_all add: rice_plan_def)
  have h3: "select_product (warehouse 80 0) (w_productId rice_plan) = Some ?p"
    by (simp add: select_product_def warehouse_def rice_plan_def rice_def)
  have h4: "p_isActive ?p = 0" "p_currentStock ?p < w_plannedQuantity rice_plan"
    by (simp_all add: rice_plan_def)
  have h5: "\<not> has_open_alert (warehouse 80 0) (w_productId rice_plan) (w_id rice_plan)"
    by (simp add: has_open_alert_def warehouse_def)
  have h6: "list_all (\<lambda>w. select_product (warehouse 80 0) (w_productId w) \<noteq> None)
              (weeklyStockPlans (warehouse 80 0))"
    by (simp add: select_product_def warehouse_def rice_plan_def rice_def)
  from C10_inactive_product_alert [OF h1 h2 h3 h4 h5 h6, of 5]
  obtain d' newAlerts a where run: "processLowStockChecking (warehouse 80 0) 12 5 = (d', Inr newAlerts)"
    and a: "a \<in> set newAlerts" "a_productId a = p_id ?p" "a_weeklyPlanId a = w_id rice_plan"
      "a_isResolved a = False" "a \<in> set (lowStockAlerts d')"
    by blast
  have "(80::number) < 200" by simp
  from warehouse_run [OF this, of 0 5] run a
  have "newAlerts = [a]" by auto
  with run a h1 h3 show ?thesis
    by (auto simp: rice_def rice_plan_def)
qed

end
